theory Spec2Isabelle
  imports Complex_Main
begin

section \<open>Ecosystem Gateway: \<open>src/integration/gtcx-ecosystem.ts\<close>\<close>

text \<open>
  The class \<open>GTCXEcosystemIntegration\<close> is embedded with explicit state passing.
  An \<open>async\<close> method returns a promise, which either resolves with a value or rejects
  with an error: \<open>'a promise\<close> is a sum with \<open>Inl\<close> the rejection. The calls a method
  makes into the JavaScript runtime (\<open>Math.random()\<close>, \<open>new Date()\<close>) are parameters of
  the model; each is an outcome that may be a thrown error, so that the \<open>catch\<close> branch
  of every method is a branch of the model. \<open>console.warn\<close> only writes to the console
  and is left out.
\<close>

datatype js_error = JsError string

type_synonym 'a promise = "js_error + 'a"

type_synonym Date = int

record ServiceConfig =
  enabled :: bool
  endpoint :: "string option"
  apiKey :: "string option"

record GlobalSouthConfig =
  offlineMode :: bool
  lowBandwidth :: bool
  localCaching :: bool

record GTCXConfig =
  ai :: "ServiceConfig option"
  compliance :: "ServiceConfig option"
  security :: "ServiceConfig option"
  globalSouth :: "GlobalSouthConfig option"

record GTCXAIResponse =
  riskScore :: real
  confidence :: real
  recommendations :: "string list"
  timestamp :: Date

record ComplianceChecks =
  kyc :: bool
  aml :: bool
  trading :: bool
  risk :: bool

record GTCXComplianceResult =
  compliant :: bool
  checks :: ComplianceChecks
  warnings :: "string list"
  timestamp :: Date

datatype RiskLevel = low | medium | high

record GTCXSecurityResult =
  authenticated :: bool
  permissions :: "string list"
  riskLevel :: RiskLevel
  timestamp :: Date

record GTCXEcosystemIntegration =
  config :: GTCXConfig
  isConnected :: bool

text \<open>
  \<open>section?.enabled\<close> used as a condition: an absent section gives \<open>undefined\<close>, which is
  falsy; a present one gives its \<open>enabled\<close> flag.
\<close>

definition section_enabled :: "ServiceConfig option \<Rightarrow> bool" where
  "section_enabled s = (case s of None \<Rightarrow> False | Some c \<Rightarrow> enabled c)"

text \<open>The constructor stores the configuration; the field initialiser sets \<open>isConnected = false\<close>.\<close>

definition constructor :: "GTCXConfig \<Rightarrow> GTCXEcosystemIntegration" where
  "constructor cfg = \<lparr>config = cfg, isConnected = False\<rparr>"

text \<open>
  The three probes await a promise that a 100 ms timer resolves; nothing rejects it.
\<close>

definition testAIConnection :: "unit promise" where
  "testAIConnection = Inr ()"

definition testComplianceConnection :: "unit promise" where
  "testComplianceConnection = Inr ()"

definition testSecurityConnection :: "unit promise" where
  "testSecurityConnection = Inr ()"

text \<open>
  \<open>connect\<close>: the \<open>try\<close> block awaits the probes of the enabled sections in order, a
  rejected probe leaving the block at once; its normal end sets \<open>isConnected\<close> and returns
  \<open>true\<close>, the \<open>catch\<close> branch clears it and returns \<open>false\<close>.
\<close>

definition connect_probes :: "GTCXConfig \<Rightarrow> unit promise" where
  "connect_probes cfg =
     (case (if section_enabled (ai cfg) then testAIConnection else Inr ()) of
        Inl e \<Rightarrow> Inl e
      | Inr _ \<Rightarrow>
          (case (if section_enabled (compliance cfg) then testComplianceConnection else Inr ()) of
             Inl e \<Rightarrow> Inl e
           | Inr _ \<Rightarrow>
               (if section_enabled (security cfg) then testSecurityConnection else Inr ())))"

definition connect :: "GTCXEcosystemIntegration \<Rightarrow> bool promise \<times> GTCXEcosystemIntegration" where
  "connect this =
     (case connect_probes (config this) of
        Inr _ \<Rightarrow> (Inr True, this\<lparr>isConnected := True\<rparr>)
      | Inl error \<Rightarrow> (Inr False, this\<lparr>isConnected := False\<rparr>))"

text \<open>
  \<open>getAIRiskAssessment\<close>: the guard is outside the \<open>try\<close>; inside it the object literal
  evaluates \<open>Math.random() * 100\<close> first and \<open>new Date()\<close> last. \<open>portfolioData\<close> has
  type \<open>any\<close> and is never read.
\<close>

definition getAIRiskAssessment ::
  "GTCXEcosystemIntegration \<Rightarrow> 'any \<Rightarrow> js_error + real \<Rightarrow> js_error + Date
     \<Rightarrow> GTCXAIResponse option promise" where
  "getAIRiskAssessment this portfolioData Math_random new_Date =
     (if \<not> section_enabled (ai (config this)) \<or> \<not> isConnected this then Inr None
      else
        (case Math_random of
           Inl error \<Rightarrow> Inr None
         | Inr r \<Rightarrow>
             (case new_Date of
                Inl error \<Rightarrow> Inr None
              | Inr d \<Rightarrow>
                  Inr (Some \<lparr>riskScore = r * 100,
                             confidence = 85 / 100,
                             recommendations =
                               [''Consider diversifying your portfolio'',
                                ''Monitor position sizes for risk management''],
                             timestamp = d\<rparr>))))"

definition getAITradeRecommendations ::
  "GTCXEcosystemIntegration \<Rightarrow> string \<Rightarrow> 'any \<Rightarrow> string list option promise" where
  "getAITradeRecommendations this userId marketData =
     (if \<not> section_enabled (ai (config this)) \<or> \<not> isConnected this then Inr None
      else
        Inr (Some [''Consider buying gold as a hedge'',
                   ''Silver shows strong momentum'',
                   ''Diversify into agricultural commodities'']))"

definition performGuardianCompliance ::
  "GTCXEcosystemIntegration \<Rightarrow> string \<Rightarrow> js_error + Date \<Rightarrow> GTCXComplianceResult option promise" where
  "performGuardianCompliance this userId new_Date =
     (if \<not> section_enabled (compliance (config this)) \<or> \<not> isConnected this then Inr None
      else
        (case new_Date of
           Inl error \<Rightarrow> Inr None
         | Inr d \<Rightarrow>
             Inr (Some \<lparr>compliant = True,
                        checks = \<lparr>kyc = True, aml = True, trading = True, risk = True\<rparr>,
                        warnings = [],
                        timestamp = d\<rparr>)))"

definition getSecurityStatus ::
  "GTCXEcosystemIntegration \<Rightarrow> string \<Rightarrow> js_error + Date \<Rightarrow> GTCXSecurityResult option promise" where
  "getSecurityStatus this userId new_Date =
     (if \<not> section_enabled (security (config this)) \<or> \<not> isConnected this then Inr None
      else
        (case new_Date of
           Inl error \<Rightarrow> Inr None
         | Inr d \<Rightarrow>
             Inr (Some \<lparr>authenticated = True,
                        permissions = [''trade'', ''withdraw'', ''deposit''],
                        riskLevel = low,
                        timestamp = d\<rparr>)))"

definition isOfflineModeSupported :: "GTCXEcosystemIntegration \<Rightarrow> bool" where
  "isOfflineModeSupported this =
     (case globalSouth (config this) of None \<Rightarrow> False | Some g \<Rightarrow> offlineMode g)"

definition isLowBandwidthOptimized :: "GTCXEcosystemIntegration \<Rightarrow> bool" where
  "isLowBandwidthOptimized this =
     (case globalSouth (config this) of None \<Rightarrow> False | Some g \<Rightarrow> lowBandwidth g)"

definition getConnectionStatus :: "GTCXEcosystemIntegration \<Rightarrow> bool" where
  "getConnectionStatus this = isConnected this"

text \<open>Configurations used as concrete inputs below.\<close>

definition fullConfig :: GTCXConfig where
  "fullConfig =
     \<lparr>ai = Some \<lparr>enabled = True, endpoint = Some ''https://ai.gtcx.io'', apiKey = None\<rparr>,
      compliance = Some \<lparr>enabled = True, endpoint = None, apiKey = None\<rparr>,
      security = Some \<lparr>enabled = True, endpoint = None, apiKey = None\<rparr>,
      globalSouth = Some \<lparr>offlineMode = True, lowBandwidth = True, localCaching = True\<rparr>\<rparr>"

definition aiOffConfig :: GTCXConfig where
  "aiOffConfig =
     \<lparr>ai = Some \<lparr>enabled = False, endpoint = Some ''https://ai.gtcx.io'', apiKey = None\<rparr>,
      compliance = Some \<lparr>enabled = True, endpoint = None, apiKey = None\<rparr>,
      security = Some \<lparr>enabled = True, endpoint = None, apiKey = None\<rparr>,
      globalSouth = Some \<lparr>offlineMode = True, lowBandwidth = True, localCaching = True\<rparr>\<rparr>"

definition allOffConfig :: GTCXConfig where
  "allOffConfig =
     \<lparr>ai = Some \<lparr>enabled = False, endpoint = None, apiKey = None\<rparr>,
      compliance = None,
      security = Some \<lparr>enabled = False, endpoint = None, apiKey = None\<rparr>,
      globalSouth = None\<rparr>"

definition complianceOffConfig :: GTCXConfig where
  "complianceOffConfig =
     \<lparr>ai = Some \<lparr>enabled = True, endpoint = Some ''https://ai.gtcx.io'', apiKey = None\<rparr>,
      compliance = Some \<lparr>enabled = False, endpoint = None, apiKey = None\<rparr>,
      security = Some \<lparr>enabled = True, endpoint = None, apiKey = None\<rparr>,
      globalSouth = Some \<lparr>offlineMode = True, lowBandwidth = True, localCaching = True\<rparr>\<rparr>"

definition securityOffConfig :: GTCXConfig where
  "securityOffConfig =
     \<lparr>ai = Some \<lparr>enabled = True, endpoint = Some ''https://ai.gtcx.io'', apiKey = None\<rparr>,
      compliance = Some \<lparr>enabled = True, endpoint = None, apiKey = None\<rparr>,
      security = Some \<lparr>enabled = False, endpoint = None, apiKey = None\<rparr>,
      globalSouth = Some \<lparr>offlineMode = True, lowBandwidth = True, localCaching = True\<rparr>\<rparr>"

section \<open>Trading core: order lifecycle and portfolio ledger\<close>

text \<open>
  Modelled from the spec: the trading engine behind \<open>SimpleTradeDesk\<close>
  (\<open>src/core/simple-trading-engine.ts\<close>), of which the example program and the README
  show only calls and signatures. Every definition of this section follows sections 3,
  4.1, 4.2 and 7 of the specification. Monetary amounts and quantities are exact decimals,
  \<open>rat\<close> here.
\<close>

type_synonym Decimal = rat

text \<open>Modelled from the spec: \<open>side\<close> is one of buy, sell (section 3, Order).\<close>

datatype Side = buy | sell

text \<open>Modelled from the spec: \<open>status\<close> is one of pending, executed, cancelled.\<close>

datatype OrderStatus = pending | executed | cancelled

text \<open>Modelled from the spec: the error kinds of section 7.\<close>

datatype error =
  UserNotFound | OrderNotFound | InvalidOrderState | InvalidQuantity | InvalidPrice
  | InsufficientPosition

text \<open>Modelled from the spec: the User record of section 3.\<close>

record User =
  user_id :: string
  name :: string
  email :: string
  createdAt :: Date

text \<open>Modelled from the spec: the Order record of section 3; \<open>executedAt\<close> is set only on
  the transition to executed.\<close>

record Order =
  order_id :: nat
  userId :: string
  symbol :: string
  side :: Side
  quantity :: Decimal
  limitPrice :: Decimal
  status :: OrderStatus
  createdAt :: Date
  executedAt :: "Date option"

text \<open>Modelled from the spec: the Trade record of section 3.\<close>

record Trade =
  trade_id :: nat
  orderId :: nat
  executionPrice :: Decimal
  quantity :: Decimal
  executedAt :: Date

text \<open>Modelled from the spec: the Position record of section 3, one per user and symbol.\<close>

record Position =
  quantity :: Decimal
  averageCost :: Decimal

text \<open>Modelled from the spec: the Portfolio record of section 3, one per user.\<close>

record Portfolio =
  positions :: "string \<rightharpoonup> Position"
  cashBalance :: Decimal
  realizedPnL :: Decimal

subsection \<open>Portfolio Ledger\<close>

text \<open>Modelled from the spec: the ledger holds the portfolios and the short-selling policy,
  which section 4.2 leaves configurable and section 3 disables by default.\<close>

record Ledger =
  portfolios :: "string \<rightharpoonup> Portfolio"
  shortSelling :: bool

text \<open>
  Modelled from the spec: a user without a recorded portfolio has no positions; the spec
  gives no opening cash balance, it is taken as 0 and only changes of it are claimed.
\<close>

definition emptyPortfolio :: Portfolio where
  "emptyPortfolio = \<lparr>positions = Map.empty, cashBalance = 0, realizedPnL = 0\<rparr>"

text \<open>Modelled from the spec: a ledger without portfolios, under the given policy.\<close>

definition newLedger :: "bool \<Rightarrow> Ledger" where
  "newLedger short = \<lparr>portfolios = Map.empty, shortSelling = short\<rparr>"

text \<open>Modelled from the spec: \<open>getPortfolio(userId)\<close> of section 6, on the ledger.\<close>

definition getPortfolio :: "Ledger \<Rightarrow> string \<Rightarrow> Portfolio" where
  "getPortfolio l u = (case portfolios l u of None \<Rightarrow> emptyPortfolio | Some p \<Rightarrow> p)"

text \<open>Modelled from the spec: a symbol never traded is the empty position, quantity 0.\<close>

definition positionOf :: "Portfolio \<Rightarrow> string \<Rightarrow> Position" where
  "positionOf p sy =
     (case positions p sy of None \<Rightarrow> \<lparr>quantity = 0, averageCost = 0\<rparr> | Some x \<Rightarrow> x)"

text \<open>
  Modelled from the spec: \<open>applyTrade(userId, symbol, side, quantity, executionPrice)\<close> of
  section 4.2. The result pairs the outcome with the ledger after the call, so that what a
  failed call leaves behind is part of the model.
\<close>

definition applyTrade ::
  "Ledger \<Rightarrow> string \<Rightarrow> string \<Rightarrow> Side \<Rightarrow> Decimal \<Rightarrow> Decimal \<Rightarrow> (error + unit) \<times> Ledger" where
  "applyTrade l u sy sd qty price =
     (let pf = getPortfolio l u;
          pos = positionOf pf sy;
          oldQty = Position.quantity pos;
          oldAvgCost = averageCost pos
      in case sd of
           buy \<Rightarrow>
             (let newQty = oldQty + qty;
                  newAvgCost =
                    (if oldQty = 0 then price
                     else (oldQty * oldAvgCost + qty * price) / newQty)
              in (Inr (),
                  l\<lparr>portfolios := (portfolios l)(u \<mapsto>
                       pf\<lparr>positions := (positions pf)(sy \<mapsto>
                               \<lparr>quantity = newQty, averageCost = newAvgCost\<rparr>),
                          cashBalance := cashBalance pf - qty * price\<rparr>)\<rparr>))
         | sell \<Rightarrow>
             (if qty > oldQty \<and> \<not> shortSelling l then (Inl InsufficientPosition, l)
              else
                (Inr (),
                 l\<lparr>portfolios := (portfolios l)(u \<mapsto>
                      pf\<lparr>positions := (positions pf)(sy \<mapsto>
                              \<lparr>quantity = oldQty - qty, averageCost = oldAvgCost\<rparr>),
                         cashBalance := cashBalance pf + qty * price,
                         realizedPnL := realizedPnL pf + (price - oldAvgCost) * qty\<rparr>)\<rparr>)))"

subsection \<open>User Registry and Order Lifecycle Manager\<close>

text \<open>
  Modelled from the spec: the engine state of sections 2 and 3. Order and trade
  identifiers are drawn from two counters, which makes them unique; the trade history is
  the append-only list \<open>trades\<close>.
\<close>

record Engine =
  users :: "string \<rightharpoonup> User"
  orders :: "nat \<rightharpoonup> Order"
  trades :: "Trade list"
  ledger :: Ledger
  nextOrderId :: nat
  nextTradeId :: nat

text \<open>Modelled from the spec: an engine with no users, orders or trades.\<close>

definition newEngine :: "bool \<Rightarrow> Engine" where
  "newEngine short =
     \<lparr>users = Map.empty, orders = Map.empty, trades = [], ledger = newLedger short,
      nextOrderId = 0, nextTradeId = 0\<rparr>"

text \<open>
  Modelled from the spec: \<open>createUser(id, name, email)\<close>. A user is "created once": a
  second call with a known id leaves the registry as it is and returns the stored record
  (the spec names no error for it).
\<close>

definition createUser :: "Engine \<Rightarrow> string \<Rightarrow> string \<Rightarrow> string \<Rightarrow> Date \<Rightarrow> User \<times> Engine" where
  "createUser s uid nm em now =
     (case users s uid of
        Some u \<Rightarrow> (u, s)
      | None \<Rightarrow>
          (let u = \<lparr>user_id = uid, name = nm, email = em, createdAt = now\<rparr>
           in (u, s\<lparr>users := (users s)(uid \<mapsto> u)\<rparr>)))"

text \<open>Modelled from the spec: \<open>updateUser(id, partialFields)\<close> changes mutable fields only.\<close>

definition updateUser ::
  "Engine \<Rightarrow> string \<Rightarrow> string option \<Rightarrow> string option \<Rightarrow> (error + User) \<times> Engine" where
  "updateUser s uid nm em =
     (case users s uid of
        None \<Rightarrow> (Inl UserNotFound, s)
      | Some u \<Rightarrow>
          (let u' = u\<lparr>name := (case nm of None \<Rightarrow> name u | Some n \<Rightarrow> n),
                      email := (case em of None \<Rightarrow> email u | Some e \<Rightarrow> e)\<rparr>
           in (Inr u', s\<lparr>users := (users s)(uid \<mapsto> u')\<rparr>)))"

text \<open>
  Modelled from the spec: \<open>placeOrder(userId, symbol, side, quantity, limitPrice)\<close> of
  section 4.1, with its three failures in the order the spec lists them.
\<close>

definition placeOrder ::
  "Engine \<Rightarrow> string \<Rightarrow> string \<Rightarrow> Side \<Rightarrow> Decimal \<Rightarrow> Decimal \<Rightarrow> Date \<Rightarrow> (error + Order) \<times> Engine" where
  "placeOrder s uid sy sd qty price now =
     (if users s uid = None then (Inl UserNotFound, s)
      else if qty \<le> 0 then (Inl InvalidQuantity, s)
      else if price \<le> 0 then (Inl InvalidPrice, s)
      else
        (let ord = \<lparr>order_id = nextOrderId s, userId = uid, symbol = sy, side = sd,
                     quantity = qty, limitPrice = price, status = pending,
                     createdAt = now, executedAt = None\<rparr>
         in (Inr ord,
             s\<lparr>orders := (orders s)(nextOrderId s \<mapsto> ord),
               nextOrderId := Suc (nextOrderId s)\<rparr>)))"

text \<open>
  Modelled from the spec: \<open>executeTrade(orderId, executionPrice)\<close> of section 4.1. The
  status check and the transition are one step of the model. The ledger is invoked before
  the call returns; an error of the ledger is the error of the call, and by section 7 an
  error leaves all state unchanged.
\<close>

definition executeTrade :: "Engine \<Rightarrow> nat \<Rightarrow> Decimal \<Rightarrow> Date \<Rightarrow> (error + Trade) \<times> Engine" where
  "executeTrade s oid price now =
     (case orders s oid of
        None \<Rightarrow> (Inl OrderNotFound, s)
      | Some ord \<Rightarrow>
          (if status ord \<noteq> pending then (Inl InvalidOrderState, s)
           else if price \<le> 0 then (Inl InvalidPrice, s)
           else
             (case applyTrade (ledger s) (userId ord) (symbol ord) (side ord)
                     (Order.quantity ord) price of
                (Inl e, _) \<Rightarrow> (Inl e, s)
              | (Inr _, l') \<Rightarrow>
                  (let t = \<lparr>trade_id = nextTradeId s, orderId = oid, executionPrice = price,
                            quantity = Order.quantity ord, executedAt = now\<rparr>
                   in (Inr t,
                       s\<lparr>orders := (orders s)(oid \<mapsto>
                            ord\<lparr>status := executed, Order.executedAt := Some now\<rparr>),
                         trades := trades s @ [t],
                         ledger := l',
                         nextTradeId := Suc (nextTradeId s)\<rparr>)))))"

text \<open>
  Modelled from the spec: \<open>cancelOrder(orderId)\<close> of section 4.1: \<open>true\<close> when a pending
  order becomes cancelled, \<open>false\<close> when the order is already terminal.
\<close>

definition cancelOrder :: "Engine \<Rightarrow> nat \<Rightarrow> (error + bool) \<times> Engine" where
  "cancelOrder s oid =
     (case orders s oid of
        None \<Rightarrow> (Inl OrderNotFound, s)
      | Some ord \<Rightarrow>
          (if status ord = pending
           then (Inr True, s\<lparr>orders := (orders s)(oid \<mapsto> ord\<lparr>status := cancelled\<rparr>)\<rparr>)
           else (Inr False, s)))"

text \<open>
  Modelled from the spec: the public operations of section 6 that change the engine, as a
  datatype.
\<close>

datatype operation =
  CreateUser string string string Date
  | UpdateUser string "string option" "string option"
  | PlaceOrder string string Side Decimal Decimal Date
  | ExecuteTrade nat Decimal Date
  | CancelOrder nat

text \<open>Modelled from the spec: the state an operation leaves behind, whatever it returns.\<close>

fun step :: "Engine \<Rightarrow> operation \<Rightarrow> Engine" where
  "step s (CreateUser uid nm em now) = snd (createUser s uid nm em now)"
| "step s (UpdateUser uid nm em) = snd (updateUser s uid nm em)"
| "step s (PlaceOrder uid sy sd qty price now) = snd (placeOrder s uid sy sd qty price now)"
| "step s (ExecuteTrade oid price now) = snd (executeTrade s oid price now)"
| "step s (CancelOrder oid) = snd (cancelOrder s oid)"

text \<open>Modelled from the spec: a state is reachable when a sequence of operations leads to it
  from a new engine.\<close>

inductive reachable :: "Engine \<Rightarrow> bool" where
  reachable_new: "reachable (newEngine short)"
| reachable_step: "reachable s \<Longrightarrow> reachable (step s opn)"

text \<open>Modelled from the spec: the trades recorded for an order.\<close>

definition tradesOf :: "Engine \<Rightarrow> nat \<Rightarrow> Trade list" where
  "tradesOf s oid = filter (\<lambda>t. orderId t = oid) (trades s)"

text \<open>Modelled from the spec: the invariant that carries the proof. Order ids are below the
  counter, and an order has one trade when it is executed and none otherwise (an unknown id
  has none).\<close>

definition engine_inv :: "Engine \<Rightarrow> bool" where
  "engine_inv s \<longleftrightarrow>
     (\<forall>oid ord. orders s oid = Some ord \<longrightarrow> oid < nextOrderId s) \<and>
     (\<forall>oid. length (tradesOf s oid) =
        (case orders s oid of
           None \<Rightarrow> 0
         | Some ord \<Rightarrow> (if status ord = executed then 1 else 0)))"

text \<open>Modelled from the spec: the end-to-end scenario of section 8, as a run of the engine.\<close>

definition scenario :: Engine where
  "scenario =
     step (step (step (newEngine False)
       (CreateUser ''u1'' ''Jane Doe'' ''jane@x.com'' 1))
       (PlaceOrder ''u1'' ''GOLD'' buy 100 (3901 / 2) 2))
       (ExecuteTrade 0 (3901 / 2) 3)"

section \<open>Properties of the Ecosystem Gateway\<close>

lemma connect_probes_ok: "connect_probes cfg = Inr ()"
  by (simp add: connect_probes_def testAIConnection_def testComplianceConnection_def
      testSecurityConnection_def)

lemma connect_state: "snd (connect this) = this\<lparr>isConnected := True\<rparr>"
  by (simp add: connect_def connect_probes_ok)

lemmas getter_defs =
  getAIRiskAssessment_def getAITradeRecommendations_def
  performGuardianCompliance_def getSecurityStatus_def

lemma compliance_depends_on_own_section:
  "compliance (config a) = compliance (config b) \<Longrightarrow> isConnected a = isConnected b \<Longrightarrow>
     performGuardianCompliance a uid new_Date = performGuardianCompliance b uid new_Date"
  by (simp add: performGuardianCompliance_def)

lemma security_depends_on_own_section:
  "security (config a) = security (config b) \<Longrightarrow> isConnected a = isConnected b \<Longrightarrow>
     getSecurityStatus a uid new_Date = getSecurityStatus b uid new_Date"
  by (simp add: getSecurityStatus_def)

lemma after_connect:
  "config (snd (connect (constructor c))) = c"
  "isConnected (snd (connect (constructor c)))"
  by (simp_all add: connect_state constructor_def)

lemma ai_risk_depends_on_own_section:
  "ai (config a) = ai (config b) \<Longrightarrow> isConnected a = isConnected b \<Longrightarrow>
     getAIRiskAssessment a portfolioData Math_random new_Date =
     getAIRiskAssessment b portfolioData Math_random new_Date"
  by (simp add: getAIRiskAssessment_def)

lemma ai_recommendations_depend_on_own_section:
  "ai (config a) = ai (config b) \<Longrightarrow> isConnected a = isConnected b \<Longrightarrow>
     getAITradeRecommendations a uid marketData = getAITradeRecommendations b uid marketData"
  by (simp add: getAITradeRecommendations_def)

lemma own_section_after_connect:
  "ai c1 = ai c2 \<Longrightarrow>
     getAIRiskAssessment (snd (connect (constructor c1))) portfolioData Math_random new_Date =
     getAIRiskAssessment (snd (connect (constructor c2))) portfolioData Math_random new_Date"
  "ai c1 = ai c2 \<Longrightarrow>
     getAITradeRecommendations (snd (connect (constructor c1))) uid marketData =
     getAITradeRecommendations (snd (connect (constructor c2))) uid marketData"
  "compliance c1 = compliance c2 \<Longrightarrow>
     performGuardianCompliance (snd (connect (constructor c1))) uid new_Date =
     performGuardianCompliance (snd (connect (constructor c2))) uid new_Date"
  "security c1 = security c2 \<Longrightarrow>
     getSecurityStatus (snd (connect (constructor c1))) uid new_Date =
     getSecurityStatus (snd (connect (constructor c2))) uid new_Date"
  by (rule ai_risk_depends_on_own_section ai_recommendations_depend_on_own_section
        compliance_depends_on_own_section security_depends_on_own_section;
      simp add: after_connect)+

lemma disabled_after_connect:
  "\<not> section_enabled (ai c) \<Longrightarrow>
     getAIRiskAssessment (snd (connect (constructor c))) portfolioData Math_random new_Date = Inr None"
  "\<not> section_enabled (ai c) \<Longrightarrow>
     getAITradeRecommendations (snd (connect (constructor c))) uid marketData = Inr None"
  "\<not> section_enabled (compliance c) \<Longrightarrow>
     performGuardianCompliance (snd (connect (constructor c))) uid new_Date = Inr None"
  "\<not> section_enabled (security c) \<Longrightarrow>
     getSecurityStatus (snd (connect (constructor c))) uid new_Date = Inr None"
  by (simp_all add: getter_defs after_connect)

lemma enabled_after_connect:
  "section_enabled (ai c) \<Longrightarrow>
     getAIRiskAssessment (snd (connect (constructor c))) portfolioData (Inr r) (Inr d) \<noteq> Inr None"
  "section_enabled (ai c) \<Longrightarrow>
     getAITradeRecommendations (snd (connect (constructor c))) uid marketData \<noteq> Inr None"
  "section_enabled (compliance c) \<Longrightarrow>
     performGuardianCompliance (snd (connect (constructor c))) uid (Inr d) \<noteq> Inr None"
  "section_enabled (security c) \<Longrightarrow>
     getSecurityStatus (snd (connect (constructor c))) uid (Inr d) \<noteq> Inr None"
  by (simp_all add: getter_defs after_connect)

text \<open>
  C1: a capability getter whose section is absent or has \<open>enabled = false\<close> resolves
  with \<open>null\<close>; it does not reject. This holds whether or not the gateway is connected.
\<close>

theorem disabled_capability_returns_null:
  "((ai (config this) = None \<or> (\<exists>c. ai (config this) = Some c \<and> \<not> enabled c)) \<longrightarrow>
      getAIRiskAssessment this portfolioData Math_random new_Date = Inr None \<and>
      getAITradeRecommendations this uid marketData = Inr None) \<and>
   ((compliance (config this) = None \<or> (\<exists>c. compliance (config this) = Some c \<and> \<not> enabled c)) \<longrightarrow>
      performGuardianCompliance this uid new_Date = Inr None) \<and>
   ((security (config this) = None \<or> (\<exists>c. security (config this) = Some c \<and> \<not> enabled c)) \<longrightarrow>
      getSecurityStatus this uid new_Date = Inr None)"
  by (auto simp: getter_defs section_enabled_def)

text \<open>The theorem at a concrete input.\<close>

theorem disabled_capability_returns_null_witness:
  "(\<exists>c. ai allOffConfig = Some c \<and> \<not> enabled c) \<and>
   compliance allOffConfig = None \<and>
   (\<exists>c. security allOffConfig = Some c \<and> \<not> enabled c) \<and>
   getAIRiskAssessment \<lparr>config = allOffConfig, isConnected = True\<rparr> () (Inr (1 / 2)) (Inr 7) = Inr None \<and>
   getAITradeRecommendations \<lparr>config = allOffConfig, isConnected = True\<rparr> ''u1'' () = Inr None \<and>
   performGuardianCompliance \<lparr>config = allOffConfig, isConnected = True\<rparr> ''u1'' (Inr 7) = Inr None \<and>
   getSecurityStatus \<lparr>config = allOffConfig, isConnected = True\<rparr> ''u1'' (Inr 7) = Inr None"
  using disabled_capability_returns_null
    [of "\<lparr>config = allOffConfig, isConnected = True\<rparr>" "()" "Inr (1 / 2)" "Inr 7" "''u1''" "()"]
  by (simp add: allOffConfig_def)

text \<open>
  C2: every capability getter resolves, for every input and every outcome of the calls
  made inside its \<open>try\<close> block; when such a call throws, the getter resolves with
  \<open>null\<close>. (\<open>getAITradeRecommendations\<close> makes no call inside its \<open>try\<close> block.)
\<close>

theorem getters_absorb_failures:
  "(\<exists>v. getAIRiskAssessment this portfolioData Math_random new_Date = Inr v) \<and>
   (\<exists>v. getAITradeRecommendations this uid marketData = Inr v) \<and>
   (\<exists>v. performGuardianCompliance this uid new_Date = Inr v) \<and>
   (\<exists>v. getSecurityStatus this uid new_Date = Inr v) \<and>
   getAIRiskAssessment this portfolioData (Inl e) new_Date = Inr None \<and>
   getAIRiskAssessment this portfolioData Math_random (Inl e) = Inr None \<and>
   performGuardianCompliance this uid (Inl e) = Inr None \<and>
   getSecurityStatus this uid (Inl e) = Inr None"
  by (auto simp: getter_defs split: sum.splits)

text \<open>The theorem at a concrete input.\<close>

theorem getters_absorb_failures_witness:
  "getAIRiskAssessment \<lparr>config = fullConfig, isConnected = True\<rparr> () (Inl (JsError ''boom'')) (Inr 7) = Inr None \<and>
   getAIRiskAssessment \<lparr>config = fullConfig, isConnected = True\<rparr> () (Inr (1 / 2)) (Inl (JsError ''boom'')) = Inr None \<and>
   performGuardianCompliance \<lparr>config = fullConfig, isConnected = True\<rparr> ''u1'' (Inl (JsError ''boom'')) = Inr None \<and>
   getSecurityStatus \<lparr>config = fullConfig, isConnected = True\<rparr> ''u1'' (Inl (JsError ''boom'')) = Inr None"
  using getters_absorb_failures
    [of "\<lparr>config = fullConfig, isConnected = True\<rparr>" "()" "Inr (1 / 2)" "Inr 7" "''u1''" "()" "JsError ''boom''"]
  by simp

text \<open>
  C6: result shapes. \<open>Math.random()\<close> returns a number in \<open>[0, 1)\<close>; under that contract
  a non-null AI response has \<open>riskScore\<close> in \<open>[0, 100]\<close>, \<open>confidence\<close> in \<open>[0, 1]\<close> and
  the list of two recommendations; a non-null security result has a \<open>riskLevel\<close> among
  low, medium, high, is authenticated and lists three permissions; a non-null compliance
  result carries the four checks and a list of warnings. The numbers are reals here;
  multiplication by 100 is monotone, so the bounds do not depend on rounding.
\<close>

theorem gateway_result_shapes:
  assumes rnd: "\<forall>x. Math_random = Inr x \<longrightarrow> 0 \<le> x \<and> x < 1"
  shows
  "(\<forall>a. getAIRiskAssessment this portfolioData Math_random new_Date = Inr (Some a) \<longrightarrow>
        0 \<le> riskScore a \<and> riskScore a \<le> 100 \<and> 0 \<le> confidence a \<and> confidence a \<le> 1 \<and>
        recommendations a =
          [''Consider diversifying your portfolio'',
           ''Monitor position sizes for risk management'']) \<and>
   (\<forall>s. getSecurityStatus this uid new_Date = Inr (Some s) \<longrightarrow>
        riskLevel s \<in> {low, medium, high} \<and> authenticated s \<and>
        permissions s = [''trade'', ''withdraw'', ''deposit'']) \<and>
   (\<forall>c. performGuardianCompliance this uid new_Date = Inr (Some c) \<longrightarrow>
        checks c = \<lparr>kyc = True, aml = True, trading = True, risk = True\<rparr> \<and>
        warnings c = [])"
proof (intro conjI allI impI)
  fix a
  assume run: "getAIRiskAssessment this portfolioData Math_random new_Date = Inr (Some a)"
  then obtain x d where x: "Math_random = Inr x" and d: "new_Date = Inr d"
    and a: "a = \<lparr>riskScore = x * 100, confidence = 85 / 100,
                  recommendations =
                    [''Consider diversifying your portfolio'',
                     ''Monitor position sizes for risk management''],
                  timestamp = d\<rparr>"
    by (auto simp: getAIRiskAssessment_def split: if_splits sum.splits)
  from rnd x have "0 \<le> x" "x < 1" by auto
  then show "0 \<le> riskScore a" "riskScore a \<le> 100" by (simp_all add: a)
  show "0 \<le> confidence a" "confidence a \<le> 1" by (simp_all add: a)
  show "recommendations a =
          [''Consider diversifying your portfolio'',
           ''Monitor position sizes for risk management'']"
    by (simp add: a)
next
  fix s
  assume run: "getSecurityStatus this uid new_Date = Inr (Some s)"
  then obtain d where s: "s = \<lparr>authenticated = True,
      permissions = [''trade'', ''withdraw'', ''deposit''], riskLevel = low, timestamp = d\<rparr>"
    by (auto simp: getSecurityStatus_def split: if_splits sum.splits)
  show "riskLevel s \<in> {low, medium, high}" by (simp add: s)
  show "authenticated s" by (simp add: s)
  show "permissions s = [''trade'', ''withdraw'', ''deposit'']" by (simp add: s)
next
  fix c
  assume run: "performGuardianCompliance this uid new_Date = Inr (Some c)"
  then obtain d where c: "c = \<lparr>compliant = True,
      checks = \<lparr>kyc = True, aml = True, trading = True, risk = True\<rparr>,
      warnings = [], timestamp = d\<rparr>"
    by (auto simp: performGuardianCompliance_def split: if_splits sum.splits)
  show "checks c = \<lparr>kyc = True, aml = True, trading = True, risk = True\<rparr>" by (simp add: c)
  show "warnings c = []" by (simp add: c)
qed

text \<open>The theorem at a concrete input.\<close>

theorem gateway_result_shapes_witness:
  "getAIRiskAssessment \<lparr>config = fullConfig, isConnected = True\<rparr> () (Inr (1 / 2)) (Inr 7) =
     Inr (Some \<lparr>riskScore = 50, confidence = 85 / 100,
                recommendations =
                  [''Consider diversifying your portfolio'',
                   ''Monitor position sizes for risk management''],
                timestamp = 7\<rparr>) \<and>
   (0::real) \<le> 50 \<and> (50::real) \<le> 100 \<and>
   getSecurityStatus \<lparr>config = fullConfig, isConnected = True\<rparr> ''u1'' (Inr 7) =
     Inr (Some \<lparr>authenticated = True, permissions = [''trade'', ''withdraw'', ''deposit''],
                riskLevel = low, timestamp = 7\<rparr>) \<and>
   performGuardianCompliance \<lparr>config = fullConfig, isConnected = True\<rparr> ''u1'' (Inr 7) =
     Inr (Some \<lparr>compliant = True,
                checks = \<lparr>kyc = True, aml = True, trading = True, risk = True\<rparr>,
                warnings = [], timestamp = 7\<rparr>)"
proof -
  have rnd: "\<forall>x. (Inr (1 / 2) :: js_error + real) = Inr x \<longrightarrow> 0 \<le> x \<and> x < 1"
    by simp
  have ai: "getAIRiskAssessment \<lparr>config = fullConfig, isConnected = True\<rparr> () (Inr (1 / 2)) (Inr 7) =
     Inr (Some \<lparr>riskScore = 50, confidence = 85 / 100,
                recommendations =
                  [''Consider diversifying your portfolio'',
                   ''Monitor position sizes for risk management''],
                timestamp = 7\<rparr>)"
    by (simp add: getAIRiskAssessment_def fullConfig_def section_enabled_def)
  have sec: "getSecurityStatus \<lparr>config = fullConfig, isConnected = True\<rparr> ''u1'' (Inr 7) =
     Inr (Some \<lparr>authenticated = True, permissions = [''trade'', ''withdraw'', ''deposit''],
                riskLevel = low, timestamp = 7\<rparr>)"
    by (simp add: getSecurityStatus_def fullConfig_def section_enabled_def)
  have com: "performGuardianCompliance \<lparr>config = fullConfig, isConnected = True\<rparr> ''u1'' (Inr 7) =
     Inr (Some \<lparr>compliant = True,
                checks = \<lparr>kyc = True, aml = True, trading = True, risk = True\<rparr>,
                warnings = [], timestamp = 7\<rparr>)"
    by (simp add: performGuardianCompliance_def fullConfig_def section_enabled_def)
  from gateway_result_shapes [OF rnd, of "\<lparr>config = fullConfig, isConnected = True\<rparr>" "()" "Inr 7" "''u1''"]
    ai sec com
  show ?thesis by simp
qed

text \<open>
  C7: capability independence. After \<open>connect()\<close>, for two configurations that differ
  only in the \<open>enabled\<close> flag of one section (\<open>ai\<close>, \<open>compliance\<close> or \<open>security\<close>),
  the getters of the other capabilities give the same results on the same inputs (the
  clock reading \<open>new Date()\<close> among them), and with the flag off the getters of that
  capability resolve with \<open>null\<close>. More generally each getter depends on its own section
  only: two configurations that agree on a section give the same results from its getters,
  a disabled section gives \<open>null\<close>, and an enabled one gives a non-null result, whatever
  the other sections are.
\<close>

theorem capability_independence:
  "(ai c1 = Some a \<and> c2 = c1\<lparr>ai := Some (a\<lparr>enabled := b\<rparr>)\<rparr> \<longrightarrow>
      performGuardianCompliance (snd (connect (constructor c1))) uid new_Date =
        performGuardianCompliance (snd (connect (constructor c2))) uid new_Date \<and>
      getSecurityStatus (snd (connect (constructor c1))) uid new_Date =
        getSecurityStatus (snd (connect (constructor c2))) uid new_Date \<and>
      (\<not> b \<longrightarrow>
         getAIRiskAssessment (snd (connect (constructor c2))) portfolioData Math_random new_Date = Inr None \<and>
         getAITradeRecommendations (snd (connect (constructor c2))) uid marketData = Inr None)) \<and>
   (compliance c1 = Some a \<and> c2 = c1\<lparr>compliance := Some (a\<lparr>enabled := b\<rparr>)\<rparr> \<longrightarrow>
      getAIRiskAssessment (snd (connect (constructor c1))) portfolioData Math_random new_Date =
        getAIRiskAssessment (snd (connect (constructor c2))) portfolioData Math_random new_Date \<and>
      getAITradeRecommendations (snd (connect (constructor c1))) uid marketData =
        getAITradeRecommendations (snd (connect (constructor c2))) uid marketData \<and>
      getSecurityStatus (snd (connect (constructor c1))) uid new_Date =
        getSecurityStatus (snd (connect (constructor c2))) uid new_Date \<and>
      (\<not> b \<longrightarrow>
         performGuardianCompliance (snd (connect (constructor c2))) uid new_Date = Inr None)) \<and>
   (security c1 = Some a \<and> c2 = c1\<lparr>security := Some (a\<lparr>enabled := b\<rparr>)\<rparr> \<longrightarrow>
      getAIRiskAssessment (snd (connect (constructor c1))) portfolioData Math_random new_Date =
        getAIRiskAssessment (snd (connect (constructor c2))) portfolioData Math_random new_Date \<and>
      getAITradeRecommendations (snd (connect (constructor c1))) uid marketData =
        getAITradeRecommendations (snd (connect (constructor c2))) uid marketData \<and>
      performGuardianCompliance (snd (connect (constructor c1))) uid new_Date =
        performGuardianCompliance (snd (connect (constructor c2))) uid new_Date \<and>
      (\<not> b \<longrightarrow>
         getSecurityStatus (snd (connect (constructor c2))) uid new_Date = Inr None)) \<and>
   (ai c1 = ai c2 \<longrightarrow>
      getAIRiskAssessment (snd (connect (constructor c1))) portfolioData Math_random new_Date =
        getAIRiskAssessment (snd (connect (constructor c2))) portfolioData Math_random new_Date \<and>
      getAITradeRecommendations (snd (connect (constructor c1))) uid marketData =
        getAITradeRecommendations (snd (connect (constructor c2))) uid marketData) \<and>
   (compliance c1 = compliance c2 \<longrightarrow>
      performGuardianCompliance (snd (connect (constructor c1))) uid new_Date =
        performGuardianCompliance (snd (connect (constructor c2))) uid new_Date) \<and>
   (security c1 = security c2 \<longrightarrow>
      getSecurityStatus (snd (connect (constructor c1))) uid new_Date =
        getSecurityStatus (snd (connect (constructor c2))) uid new_Date) \<and>
   (section_enabled (ai c2) \<longrightarrow>
      getAIRiskAssessment (snd (connect (constructor c2))) portfolioData (Inr r) (Inr d) \<noteq> Inr None \<and>
      getAITradeRecommendations (snd (connect (constructor c2))) uid marketData \<noteq> Inr None) \<and>
   (section_enabled (compliance c2) \<longrightarrow>
      performGuardianCompliance (snd (connect (constructor c2))) uid (Inr d) \<noteq> Inr None) \<and>
   (section_enabled (security c2) \<longrightarrow>
      getSecurityStatus (snd (connect (constructor c2))) uid (Inr d) \<noteq> Inr None) \<and>
   (\<not> section_enabled (ai c2) \<longrightarrow>
      getAIRiskAssessment (snd (connect (constructor c2))) portfolioData Math_random new_Date = Inr None \<and>
      getAITradeRecommendations (snd (connect (constructor c2))) uid marketData = Inr None) \<and>
   (\<not> section_enabled (compliance c2) \<longrightarrow>
      performGuardianCompliance (snd (connect (constructor c2))) uid new_Date = Inr None) \<and>
   (\<not> section_enabled (security c2) \<longrightarrow>
      getSecurityStatus (snd (connect (constructor c2))) uid new_Date = Inr None)"
proof -
  have ai_flag: "ai c1 = Some a \<and> c2 = c1\<lparr>ai := Some (a\<lparr>enabled := b\<rparr>)\<rparr> \<Longrightarrow>
      compliance c1 = compliance c2 \<and> security c1 = security c2 \<and>
      (\<not> b \<longrightarrow> \<not> section_enabled (ai c2))"
    by (simp add: section_enabled_def)
  have compliance_flag: "compliance c1 = Some a \<and> c2 = c1\<lparr>compliance := Some (a\<lparr>enabled := b\<rparr>)\<rparr> \<Longrightarrow>
      ai c1 = ai c2 \<and> security c1 = security c2 \<and>
      (\<not> b \<longrightarrow> \<not> section_enabled (compliance c2))"
    by (simp add: section_enabled_def)
  have security_flag: "security c1 = Some a \<and> c2 = c1\<lparr>security := Some (a\<lparr>enabled := b\<rparr>)\<rparr> \<Longrightarrow>
      ai c1 = ai c2 \<and> compliance c1 = compliance c2 \<and>
      (\<not> b \<longrightarrow> \<not> section_enabled (security c2))"
    by (simp add: section_enabled_def)
  show ?thesis
    using ai_flag compliance_flag security_flag
    by (intro conjI impI)
      (blast intro: own_section_after_connect disabled_after_connect
         dest: enabled_after_connect)+
qed

text \<open>The theorem at the configuration with every capability enabled against the three
  configurations with one flag turned off.\<close>

theorem capability_independence_witness:
  "ai fullConfig = Some \<lparr>enabled = True, endpoint = Some ''https://ai.gtcx.io'', apiKey = None\<rparr> \<and>
   aiOffConfig = fullConfig\<lparr>ai := Some (\<lparr>enabled = True, endpoint = Some ''https://ai.gtcx.io'',
                                             apiKey = None\<rparr>\<lparr>enabled := False\<rparr>)\<rparr> \<and>
   compliance fullConfig = Some \<lparr>enabled = True, endpoint = None, apiKey = None\<rparr> \<and>
   complianceOffConfig =
     fullConfig\<lparr>compliance := Some (\<lparr>enabled = True, endpoint = None, apiKey = None\<rparr>\<lparr>enabled := False\<rparr>)\<rparr> \<and>
   security fullConfig = Some \<lparr>enabled = True, endpoint = None, apiKey = None\<rparr> \<and>
   securityOffConfig =
     fullConfig\<lparr>security := Some (\<lparr>enabled = True, endpoint = None, apiKey = None\<rparr>\<lparr>enabled := False\<rparr>)\<rparr> \<and>
   performGuardianCompliance (snd (connect (constructor fullConfig))) ''u1'' (Inr 7) =
     performGuardianCompliance (snd (connect (constructor aiOffConfig))) ''u1'' (Inr 7) \<and>
   performGuardianCompliance (snd (connect (constructor aiOffConfig))) ''u1'' (Inr 7) =
     Inr (Some \<lparr>compliant = True,
                checks = \<lparr>kyc = True, aml = True, trading = True, risk = True\<rparr>,
                warnings = [], timestamp = 7\<rparr>) \<and>
   getSecurityStatus (snd (connect (constructor fullConfig))) ''u1'' (Inr 7) =
     getSecurityStatus (snd (connect (constructor aiOffConfig))) ''u1'' (Inr 7) \<and>
   getAIRiskAssessment (snd (connect (constructor aiOffConfig))) () (Inr (1 / 2)) (Inr 7) = Inr None \<and>
   getAITradeRecommendations (snd (connect (constructor aiOffConfig))) ''u1'' () = Inr None \<and>
   getAITradeRecommendations (snd (connect (constructor fullConfig))) ''u1'' () \<noteq> Inr None \<and>
   getAITradeRecommendations (snd (connect (constructor fullConfig))) ''u1'' () =
     getAITradeRecommendations (snd (connect (constructor complianceOffConfig))) ''u1'' () \<and>
   getAIRiskAssessment (snd (connect (constructor fullConfig))) () (Inr (1 / 2)) (Inr 7) =
     getAIRiskAssessment (snd (connect (constructor complianceOffConfig))) () (Inr (1 / 2)) (Inr 7) \<and>
   getAIRiskAssessment (snd (connect (constructor complianceOffConfig))) () (Inr (1 / 2)) (Inr 7) \<noteq> Inr None \<and>
   getSecurityStatus (snd (connect (constructor complianceOffConfig))) ''u1'' (Inr 7) \<noteq> Inr None \<and>
   performGuardianCompliance (snd (connect (constructor complianceOffConfig))) ''u1'' (Inr 7) = Inr None \<and>
   getAITradeRecommendations (snd (connect (constructor fullConfig))) ''u1'' () =
     getAITradeRecommendations (snd (connect (constructor securityOffConfig))) ''u1'' () \<and>
   performGuardianCompliance (snd (connect (constructor fullConfig))) ''u1'' (Inr 7) =
     performGuardianCompliance (snd (connect (constructor securityOffConfig))) ''u1'' (Inr 7) \<and>
   performGuardianCompliance (snd (connect (constructor securityOffConfig))) ''u1'' (Inr 7) \<noteq> Inr None \<and>
   getSecurityStatus (snd (connect (constructor securityOffConfig))) ''u1'' (Inr 7) = Inr None"
proof -
  have ai_sec: "ai fullConfig = Some \<lparr>enabled = True, endpoint = Some ''https://ai.gtcx.io'', apiKey = None\<rparr>"
    and ai_diff: "aiOffConfig = fullConfig\<lparr>ai := Some (\<lparr>enabled = True, endpoint = Some ''https://ai.gtcx.io'',
                                             apiKey = None\<rparr>\<lparr>enabled := False\<rparr>)\<rparr>"
    and co_sec: "compliance fullConfig = Some \<lparr>enabled = True, endpoint = None, apiKey = None\<rparr>"
    and co_diff: "complianceOffConfig =
     fullConfig\<lparr>compliance := Some (\<lparr>enabled = True, endpoint = None, apiKey = None\<rparr>\<lparr>enabled := False\<rparr>)\<rparr>"
    and se_sec: "security fullConfig = Some \<lparr>enabled = True, endpoint = None, apiKey = None\<rparr>"
    and se_diff: "securityOffConfig =
     fullConfig\<lparr>security := Some (\<lparr>enabled = True, endpoint = None, apiKey = None\<rparr>\<lparr>enabled := False\<rparr>)\<rparr>"
    by (simp_all add: fullConfig_def aiOffConfig_def complianceOffConfig_def securityOffConfig_def)
  have on: "section_enabled (ai fullConfig)" "section_enabled (compliance fullConfig)"
    "section_enabled (security fullConfig)"
    "section_enabled (compliance aiOffConfig)"
    "section_enabled (ai complianceOffConfig)" "section_enabled (security complianceOffConfig)"
    "section_enabled (compliance securityOffConfig)"
    by (simp_all add: section_enabled_def fullConfig_def aiOffConfig_def complianceOffConfig_def
        securityOffConfig_def)
  have com: "performGuardianCompliance (snd (connect (constructor aiOffConfig))) ''u1'' (Inr 7) =
     Inr (Some \<lparr>compliant = True,
                checks = \<lparr>kyc = True, aml = True, trading = True, risk = True\<rparr>,
                warnings = [], timestamp = 7\<rparr>)"
    by (simp add: connect_state constructor_def performGuardianCompliance_def on)
  note a = capability_independence
    [of fullConfig "\<lparr>enabled = True, endpoint = Some ''https://ai.gtcx.io'', apiKey = None\<rparr>"
        aiOffConfig False "''u1''" "Inr 7" "()" "Inr (1 / 2)" "()" "1 / 2" 7]
  note c = capability_independence
    [of fullConfig "\<lparr>enabled = True, endpoint = None, apiKey = None\<rparr>"
        complianceOffConfig False "''u1''" "Inr 7" "()" "Inr (1 / 2)" "()" "1 / 2" 7]
  note s = capability_independence
    [of fullConfig "\<lparr>enabled = True, endpoint = None, apiKey = None\<rparr>"
        securityOffConfig False "''u1''" "Inr 7" "()" "Inr (1 / 2)" "()" "1 / 2" 7]
  note f = capability_independence
    [of fullConfig "\<lparr>enabled = True, endpoint = None, apiKey = None\<rparr>"
        fullConfig True "''u1''" "Inr 7" "()" "Inr (1 / 2)" "()" "1 / 2" 7]
  note c2 = conjunct2
  note A = a [THEN conjunct1, THEN mp, OF conjI [OF ai_sec ai_diff]]
  note C = c [THEN c2, THEN conjunct1, THEN mp, OF conjI [OF co_sec co_diff]]
  note S = s [THEN c2, THEN c2, THEN conjunct1, THEN mp, OF conjI [OF se_sec se_diff]]
  note C_ai = c [THEN c2, THEN c2, THEN c2, THEN c2, THEN c2, THEN c2, THEN conjunct1,
      THEN mp, OF on(5)]
  note C_se = c [THEN c2, THEN c2, THEN c2, THEN c2, THEN c2, THEN c2, THEN c2, THEN c2,
      THEN conjunct1, THEN mp, OF on(6)]
  note S_co = s [THEN c2, THEN c2, THEN c2, THEN c2, THEN c2, THEN c2, THEN c2,
      THEN conjunct1, THEN mp, OF on(7)]
  note F_ai = f [THEN c2, THEN c2, THEN c2, THEN c2, THEN c2, THEN c2, THEN conjunct1,
      THEN mp, OF on(1)]
  from A C S C_ai C_se S_co F_ai ai_sec ai_diff co_sec co_diff se_sec se_diff com
  show ?thesis by (intro conjI; blast)
qed

text \<open>
  C8: a non-null result of \<open>performGuardianCompliance\<close> has \<open>compliant = true\<close>, all
  four checks true and no warnings, whatever the user id.
\<close>

theorem compliance_result_fixed:
  "performGuardianCompliance this uid new_Date = Inr (Some r) \<Longrightarrow>
     compliant r \<and> kyc (checks r) \<and> aml (checks r) \<and> trading (checks r) \<and> risk (checks r) \<and>
     warnings r = []"
  by (auto simp: performGuardianCompliance_def split: if_splits sum.splits)

text \<open>The theorem at a concrete input.\<close>

theorem compliance_result_fixed_witness:
  "performGuardianCompliance \<lparr>config = fullConfig, isConnected = True\<rparr> ''u1'' (Inr 7) =
     Inr (Some \<lparr>compliant = True,
                checks = \<lparr>kyc = True, aml = True, trading = True, risk = True\<rparr>,
                warnings = [], timestamp = 7\<rparr>) \<and>
   compliant \<lparr>compliant = True,
                checks = \<lparr>kyc = True, aml = True, trading = True, risk = True\<rparr>,
                warnings = [], timestamp = 7\<rparr>"
proof -
  have run: "performGuardianCompliance \<lparr>config = fullConfig, isConnected = True\<rparr> ''u1'' (Inr 7) =
     Inr (Some \<lparr>compliant = True,
                checks = \<lparr>kyc = True, aml = True, trading = True, risk = True\<rparr>,
                warnings = [], timestamp = 7\<rparr>)"
    by (simp add: performGuardianCompliance_def fullConfig_def section_enabled_def)
  from compliance_result_fixed [OF run] run show ?thesis by simp
qed

text \<open>
  C9: the constructor leaves \<open>isConnected = false\<close>, and while it is false every
  capability getter resolves with \<open>null\<close>, for every configuration and input, enabled
  or not.
\<close>

theorem getters_null_before_connect:
  "\<not> isConnected (constructor cfg) \<and>
   (\<not> isConnected this \<longrightarrow>
      getAIRiskAssessment this portfolioData Math_random new_Date = Inr None \<and>
      getAITradeRecommendations this uid marketData = Inr None \<and>
      performGuardianCompliance this uid new_Date = Inr None \<and>
      getSecurityStatus this uid new_Date = Inr None)"
  by (simp add: getter_defs constructor_def)

text \<open>The theorem at a configuration with every capability enabled.\<close>

theorem getters_null_before_connect_witness:
  "section_enabled (ai fullConfig) \<and> section_enabled (compliance fullConfig) \<and>
   section_enabled (security fullConfig) \<and>
   getAIRiskAssessment (constructor fullConfig) () (Inr (1 / 2)) (Inr 7) = Inr None \<and>
   getAITradeRecommendations (constructor fullConfig) ''u1'' () = Inr None \<and>
   performGuardianCompliance (constructor fullConfig) ''u1'' (Inr 7) = Inr None \<and>
   getSecurityStatus (constructor fullConfig) ''u1'' (Inr 7) = Inr None"
  using getters_null_before_connect
    [of fullConfig "constructor fullConfig" "()" "Inr (1 / 2)" "Inr 7" "''u1''" "()"]
  by (simp add: fullConfig_def section_enabled_def)

text \<open>
  C10: \<open>connect()\<close> resolves with \<open>true\<close> and leaves \<open>isConnected = true\<close>, for every
  configuration and every prior state: no probe rejects, so the \<open>catch\<close> branch is
  never taken.
\<close>

theorem connect_always_true:
  "connect_probes (config this) = Inr () \<and>
   connect this = (Inr True, this\<lparr>isConnected := True\<rparr>) \<and>
   getConnectionStatus (snd (connect this))"
  by (simp add: connect_def connect_probes_ok getConnectionStatus_def)

text \<open>The theorem at a concrete input.\<close>

theorem connect_always_true_witness:
  "connect (constructor fullConfig) = (Inr True, \<lparr>config = fullConfig, isConnected = True\<rparr>)"
  using connect_always_true [of "constructor fullConfig"]
  by (simp add: constructor_def)

section \<open>Properties of the Portfolio Ledger\<close>

lemma applyTrade_buy:
  "applyTrade l u sy buy qty price =
     (Inr (),
      l\<lparr>portfolios := (portfolios l)(u \<mapsto>
           (getPortfolio l u)\<lparr>positions := (positions (getPortfolio l u))(sy \<mapsto>
               \<lparr>quantity = Position.quantity (positionOf (getPortfolio l u) sy) + qty,
                averageCost =
                  (if Position.quantity (positionOf (getPortfolio l u) sy) = 0 then price
                   else (Position.quantity (positionOf (getPortfolio l u) sy)
                           * averageCost (positionOf (getPortfolio l u) sy) + qty * price)
                        / (Position.quantity (positionOf (getPortfolio l u) sy) + qty))\<rparr>),
              cashBalance := cashBalance (getPortfolio l u) - qty * price\<rparr>)\<rparr>)"
  by (simp add: applyTrade_def Let_def)

lemma getPortfolio_upd: "getPortfolio (l\<lparr>portfolios := (portfolios l)(u \<mapsto> p)\<rparr>) u = p"
  by (simp add: getPortfolio_def)

lemma positionOf_upd: "positionOf (p\<lparr>positions := (positions p)(sy \<mapsto> x), cashBalance := c\<rparr>) sy = x"
  by (simp add: positionOf_def)

lemma buy_position:
  "positionOf (getPortfolio (snd (applyTrade l u sy buy qty price)) u) sy =
     \<lparr>quantity = Position.quantity (positionOf (getPortfolio l u) sy) + qty,
      averageCost =
        (if Position.quantity (positionOf (getPortfolio l u) sy) = 0 then price
         else (Position.quantity (positionOf (getPortfolio l u) sy)
                 * averageCost (positionOf (getPortfolio l u) sy) + qty * price)
              / (Position.quantity (positionOf (getPortfolio l u) sy) + qty))\<rparr>"
  by (simp add: applyTrade_buy getPortfolio_upd positionOf_upd)

lemma buy_cash:
  "cashBalance (getPortfolio (snd (applyTrade l u sy buy qty price)) u) =
     cashBalance (getPortfolio l u) - qty * price"
  by (simp add: applyTrade_buy getPortfolio_upd)

text \<open>
  C3: weighted-average-cost law. From an empty position, a buy of 100 at 10 and a buy of
  100 at 20 give quantity 200 and average cost 15. In general, on a position of
  non-negative quantity, a buy of a positive quantity succeeds, adds the quantity, sets the
  average cost to \<open>(oldQty * oldAvgCost + quantity * price) / newQty\<close> (which is the
  execution price when \<open>oldQty = 0\<close>) and lowers the cash balance by \<open>quantity * price\<close>.
\<close>

theorem weighted_average_cost_law:
  "(Position.quantity (positionOf (getPortfolio l u) sy) = 0 \<longrightarrow>
      positionOf (getPortfolio
          (snd (applyTrade (snd (applyTrade l u sy buy 100 10)) u sy buy 100 20)) u) sy =
        \<lparr>quantity = 200, averageCost = 15\<rparr>) \<and>
   (0 \<le> Position.quantity (positionOf (getPortfolio l u) sy) \<and> 0 < qty \<longrightarrow>
      fst (applyTrade l u sy buy qty price) = Inr () \<and>
      Position.quantity (positionOf (getPortfolio (snd (applyTrade l u sy buy qty price)) u) sy) =
        Position.quantity (positionOf (getPortfolio l u) sy) + qty \<and>
      averageCost (positionOf (getPortfolio (snd (applyTrade l u sy buy qty price)) u) sy) =
        (Position.quantity (positionOf (getPortfolio l u) sy)
           * averageCost (positionOf (getPortfolio l u) sy) + qty * price)
        / (Position.quantity (positionOf (getPortfolio l u) sy) + qty) \<and>
      (Position.quantity (positionOf (getPortfolio l u) sy) = 0 \<longrightarrow>
         averageCost (positionOf (getPortfolio (snd (applyTrade l u sy buy qty price)) u) sy) = price) \<and>
      cashBalance (getPortfolio (snd (applyTrade l u sy buy qty price)) u) =
        cashBalance (getPortfolio l u) - qty * price)"
proof (intro conjI impI)
  assume "Position.quantity (positionOf (getPortfolio l u) sy) = 0"
  then have first: "positionOf (getPortfolio (snd (applyTrade l u sy buy 100 10)) u) sy =
      \<lparr>quantity = 100, averageCost = 10\<rparr>"
    by (simp add: buy_position)
  show "positionOf (getPortfolio
          (snd (applyTrade (snd (applyTrade l u sy buy 100 10)) u sy buy 100 20)) u) sy =
        \<lparr>quantity = 200, averageCost = 15\<rparr>"
    by (simp add: buy_position [of "snd (applyTrade l u sy buy 100 10)"] first)
next
  assume pre: "0 \<le> Position.quantity (positionOf (getPortfolio l u) sy) \<and> 0 < qty"
  show "fst (applyTrade l u sy buy qty price) = Inr ()"
    by (simp add: applyTrade_buy)
  show "Position.quantity (positionOf (getPortfolio (snd (applyTrade l u sy buy qty price)) u) sy) =
        Position.quantity (positionOf (getPortfolio l u) sy) + qty"
    by (simp add: buy_position)
  from pre show "averageCost (positionOf (getPortfolio (snd (applyTrade l u sy buy qty price)) u) sy) =
        (Position.quantity (positionOf (getPortfolio l u) sy)
           * averageCost (positionOf (getPortfolio l u) sy) + qty * price)
        / (Position.quantity (positionOf (getPortfolio l u) sy) + qty)"
    by (simp add: buy_position)
  show "cashBalance (getPortfolio (snd (applyTrade l u sy buy qty price)) u) =
        cashBalance (getPortfolio l u) - qty * price"
    by (rule buy_cash)
next
  assume "Position.quantity (positionOf (getPortfolio l u) sy) = 0"
  then show "averageCost (positionOf (getPortfolio (snd (applyTrade l u sy buy qty price)) u) sy) = price"
    by (simp add: buy_position)
qed

text \<open>The law at the buys of 100 units at 10 and at 20, and at the buy of the end-to-end scenario.\<close>

theorem weighted_average_cost_law_witness:
  "Position.quantity (positionOf (getPortfolio (newLedger False) ''u1'') ''GOLD'') = 0 \<and>
   positionOf (getPortfolio
       (snd (applyTrade (snd (applyTrade (newLedger False) ''u1'' ''GOLD'' buy 100 10))
          ''u1'' ''GOLD'' buy 100 20)) ''u1'') ''GOLD'' =
     \<lparr>quantity = 200, averageCost = 15\<rparr> \<and>
   cashBalance (getPortfolio (snd (applyTrade (newLedger False) ''u1'' ''GOLD'' buy 100 (3901 / 2))) ''u1'') =
     - 195050"
proof -
  have empty: "Position.quantity (positionOf (getPortfolio (newLedger False) ''u1'') ''GOLD'') = 0"
    by (simp add: newLedger_def getPortfolio_def emptyPortfolio_def positionOf_def)
  have cash: "cashBalance (getPortfolio (newLedger False) ''u1'') = 0"
    by (simp add: newLedger_def getPortfolio_def emptyPortfolio_def)
  from weighted_average_cost_law [of "newLedger False" "''u1''" "''GOLD''" 100 "3901 / 2"] empty cash
  show ?thesis by simp
qed

text \<open>
  C4: with short-selling disabled, a sell of more than the held quantity fails with
  \<open>InsufficientPosition\<close> and leaves the ledger as it was: the position, the cash
  balance and the realized P&L of the user are those before the call.
\<close>

theorem sell_beyond_position_fails:
  assumes "\<not> shortSelling l"
    and "Position.quantity (positionOf (getPortfolio l u) sy) < qty"
  shows "fst (applyTrade l u sy sell qty price) = Inl InsufficientPosition \<and>
         snd (applyTrade l u sy sell qty price) = l \<and>
         positionOf (getPortfolio (snd (applyTrade l u sy sell qty price)) u) sy =
           positionOf (getPortfolio l u) sy \<and>
         cashBalance (getPortfolio (snd (applyTrade l u sy sell qty price)) u) =
           cashBalance (getPortfolio l u) \<and>
         realizedPnL (getPortfolio (snd (applyTrade l u sy sell qty price)) u) =
           realizedPnL (getPortfolio l u)"
proof -
  from assms have "applyTrade l u sy sell qty price = (Inl InsufficientPosition, l)"
    by (simp add: applyTrade_def Let_def)
  then show ?thesis by simp
qed

text \<open>The theorem at a sell of 150 against a position of 100.\<close>

theorem sell_beyond_position_fails_witness:
  "\<not> shortSelling (snd (applyTrade (newLedger False) ''u1'' ''GOLD'' buy 100 10)) \<and>
   Position.quantity (positionOf (getPortfolio
       (snd (applyTrade (newLedger False) ''u1'' ''GOLD'' buy 100 10)) ''u1'') ''GOLD'') < 150 \<and>
   applyTrade (snd (applyTrade (newLedger False) ''u1'' ''GOLD'' buy 100 10)) ''u1'' ''GOLD'' sell 150 12 =
     (Inl InsufficientPosition, snd (applyTrade (newLedger False) ''u1'' ''GOLD'' buy 100 10))"
proof -
  have short: "\<not> shortSelling (snd (applyTrade (newLedger False) ''u1'' ''GOLD'' buy 100 10))"
    by (simp add: applyTrade_buy newLedger_def)
  have held: "Position.quantity (positionOf (getPortfolio
       (snd (applyTrade (newLedger False) ''u1'' ''GOLD'' buy 100 10)) ''u1'') ''GOLD'') < 150"
  proof -
    have "Position.quantity (positionOf (getPortfolio (newLedger False) ''u1'') ''GOLD'') = 0"
      by (simp add: newLedger_def getPortfolio_def emptyPortfolio_def positionOf_def)
    then show ?thesis by (simp add: buy_position)
  qed
  from sell_beyond_position_fails [OF short held, of 12] short held
  show ?thesis by (simp add: prod_eq_iff)
qed

section \<open>Properties of the Order Lifecycle Manager\<close>

lemma createUser_fields:
  "orders (snd (createUser s uid nm em now)) = orders s"
  "trades (snd (createUser s uid nm em now)) = trades s"
  "nextOrderId (snd (createUser s uid nm em now)) = nextOrderId s"
  by (simp_all add: createUser_def Let_def split: option.splits)

lemma updateUser_fields:
  "orders (snd (updateUser s uid nm em)) = orders s"
  "trades (snd (updateUser s uid nm em)) = trades s"
  "nextOrderId (snd (updateUser s uid nm em)) = nextOrderId s"
  by (simp_all add: updateUser_def Let_def split: option.splits)

lemma placeOrder_cases:
  "snd (placeOrder s uid sy sd qty price now) = s \<or>
   (\<exists>ord. status ord = pending \<and>
      snd (placeOrder s uid sy sd qty price now) =
        s\<lparr>orders := (orders s)(nextOrderId s \<mapsto> ord), nextOrderId := Suc (nextOrderId s)\<rparr>)"
proof (cases "users s uid = None \<or> qty \<le> 0 \<or> price \<le> 0")
  case True
  then have "snd (placeOrder s uid sy sd qty price now) = s"
    by (auto simp: placeOrder_def)
  then show ?thesis ..
next
  case False
  then have "snd (placeOrder s uid sy sd qty price now) =
      s\<lparr>orders := (orders s)(nextOrderId s \<mapsto>
           \<lparr>order_id = nextOrderId s, userId = uid, symbol = sy, side = sd,
            quantity = qty, limitPrice = price, status = pending,
            createdAt = now, executedAt = None\<rparr>),
        nextOrderId := Suc (nextOrderId s)\<rparr>"
    by (auto simp: placeOrder_def Let_def)
  moreover have "status \<lparr>order_id = nextOrderId s, userId = uid, symbol = sy, side = sd,
            quantity = qty, limitPrice = price, status = pending,
            createdAt = now, executedAt = None\<rparr> = pending"
    by simp
  ultimately show ?thesis by blast
qed

lemma executeTrade_cases:
  "snd (executeTrade s oid price now) = s \<or>
   (\<exists>ord l' t. orders s oid = Some ord \<and> status ord = pending \<and> orderId t = oid \<and>
      snd (executeTrade s oid price now) =
        s\<lparr>orders := (orders s)(oid \<mapsto> ord\<lparr>status := executed, Order.executedAt := Some now\<rparr>),
          trades := trades s @ [t], ledger := l', nextTradeId := Suc (nextTradeId s)\<rparr>)"
proof (cases "orders s oid")
  case None
  then have "snd (executeTrade s oid price now) = s"
    by (simp add: executeTrade_def)
  then show ?thesis ..
next
  case (Some ord)
  show ?thesis
  proof (cases "status ord \<noteq> pending \<or> price \<le> 0 \<or>
      (\<exists>e. fst (applyTrade (ledger s) (userId ord) (symbol ord) (side ord)
                  (Order.quantity ord) price) = Inl e)")
    case True
    with Some have "snd (executeTrade s oid price now) = s"
      by (auto simp: executeTrade_def split: prod.splits sum.splits)
    then show ?thesis ..
  next
    case False
    with Some have "snd (executeTrade s oid price now) =
        s\<lparr>orders := (orders s)(oid \<mapsto> ord\<lparr>status := executed, Order.executedAt := Some now\<rparr>),
          trades := trades s @
            [\<lparr>trade_id = nextTradeId s, orderId = oid, executionPrice = price,
              quantity = Order.quantity ord, executedAt = now\<rparr>],
          ledger := snd (applyTrade (ledger s) (userId ord) (symbol ord) (side ord)
                  (Order.quantity ord) price),
          nextTradeId := Suc (nextTradeId s)\<rparr>"
      by (auto simp: executeTrade_def Let_def split: prod.splits sum.splits)
    moreover have "orderId \<lparr>trade_id = nextTradeId s, orderId = oid, executionPrice = price,
              quantity = Order.quantity ord, executedAt = now\<rparr> = oid"
      by simp
    moreover from False have "status ord = pending" by simp
    ultimately show ?thesis using Some by blast
  qed
qed

lemma cancelOrder_cases:
  "snd (cancelOrder s oid) = s \<or>
   (\<exists>ord. orders s oid = Some ord \<and> status ord = pending \<and>
      snd (cancelOrder s oid) = s\<lparr>orders := (orders s)(oid \<mapsto> ord\<lparr>status := cancelled\<rparr>)\<rparr>)"
  by (cases "orders s oid") (simp_all add: cancelOrder_def)

lemma engine_inv_users:
  "orders s' = orders s \<Longrightarrow> trades s' = trades s \<Longrightarrow> nextOrderId s' = nextOrderId s \<Longrightarrow>
     engine_inv s \<Longrightarrow> engine_inv s'"
  by (simp add: engine_inv_def tradesOf_def)

lemma engine_inv_new: "engine_inv (newEngine short)"
  by (simp add: engine_inv_def newEngine_def tradesOf_def)

lemma engine_inv_fresh: "engine_inv s \<Longrightarrow> orders s (nextOrderId s) = None"
  by (cases "orders s (nextOrderId s)") (auto simp: engine_inv_def)

lemma engine_inv_placed:
  assumes inv: "engine_inv s" and pend: "status ord = pending"
  shows "engine_inv (s\<lparr>orders := (orders s)(nextOrderId s \<mapsto> ord),
                        nextOrderId := Suc (nextOrderId s)\<rparr>)"
proof -
  have fresh: "orders s (nextOrderId s) = None" by (rule engine_inv_fresh [OF inv])
  from inv have low: "\<And>oid x. orders s oid = Some x \<Longrightarrow> oid < nextOrderId s"
    and cnt: "\<And>oid. length (tradesOf s oid) =
        (case orders s oid of None \<Rightarrow> 0 | Some x \<Rightarrow> (if status x = executed then 1 else 0))"
    by (auto simp: engine_inv_def)
  from cnt [of "nextOrderId s"] fresh have none: "length (tradesOf s (nextOrderId s)) = 0"
    by simp
  show ?thesis
    unfolding engine_inv_def
  proof (intro conjI allI impI)
    fix oid x
    assume "orders (s\<lparr>orders := (orders s)(nextOrderId s \<mapsto> ord),
                        nextOrderId := Suc (nextOrderId s)\<rparr>) oid = Some x"
    then show "oid < nextOrderId (s\<lparr>orders := (orders s)(nextOrderId s \<mapsto> ord),
                        nextOrderId := Suc (nextOrderId s)\<rparr>)"
      using low [of oid x] by (cases "oid = nextOrderId s") simp_all
  next
    fix oid
    show "length (tradesOf (s\<lparr>orders := (orders s)(nextOrderId s \<mapsto> ord),
                        nextOrderId := Suc (nextOrderId s)\<rparr>) oid) =
        (case orders (s\<lparr>orders := (orders s)(nextOrderId s \<mapsto> ord),
                        nextOrderId := Suc (nextOrderId s)\<rparr>) oid of
           None \<Rightarrow> 0 | Some x \<Rightarrow> (if status x = executed then 1 else 0))"
    proof (cases "oid = nextOrderId s")
      case True
      with none pend show ?thesis by (simp add: tradesOf_def)
    next
      case False
      with cnt [of oid] show ?thesis by (simp add: tradesOf_def)
    qed
  qed
qed

lemma engine_inv_executed:
  assumes inv: "engine_inv s" and ord: "orders s oid = Some ord" and pend: "status ord = pending"
    and t: "orderId t = oid"
  shows "engine_inv (s\<lparr>orders := (orders s)(oid \<mapsto> ord\<lparr>status := executed, Order.executedAt := Some now\<rparr>),
            trades := trades s @ [t], ledger := l', nextTradeId := n\<rparr>)"
proof -
  from inv have low: "\<And>k x. orders s k = Some x \<Longrightarrow> k < nextOrderId s"
    and cnt: "\<And>k. length (tradesOf s k) =
        (case orders s k of None \<Rightarrow> 0 | Some x \<Rightarrow> (if status x = executed then 1 else 0))"
    by (auto simp: engine_inv_def)
  from cnt [of oid] ord pend have none: "length (tradesOf s oid) = 0" by simp
  show ?thesis
    unfolding engine_inv_def
  proof (intro conjI allI impI)
    fix k x
    assume "orders (s\<lparr>orders := (orders s)(oid \<mapsto> ord\<lparr>status := executed, Order.executedAt := Some now\<rparr>),
            trades := trades s @ [t], ledger := l', nextTradeId := n\<rparr>) k = Some x"
    then show "k < nextOrderId (s\<lparr>orders := (orders s)(oid \<mapsto> ord\<lparr>status := executed, Order.executedAt := Some now\<rparr>),
            trades := trades s @ [t], ledger := l', nextTradeId := n\<rparr>)"
      using low [of k x] low [OF ord] by (cases "k = oid") simp_all
  next
    fix k
    show "length (tradesOf (s\<lparr>orders := (orders s)(oid \<mapsto> ord\<lparr>status := executed, Order.executedAt := Some now\<rparr>),
            trades := trades s @ [t], ledger := l', nextTradeId := n\<rparr>) k) =
        (case orders (s\<lparr>orders := (orders s)(oid \<mapsto> ord\<lparr>status := executed, Order.executedAt := Some now\<rparr>),
            trades := trades s @ [t], ledger := l', nextTradeId := n\<rparr>) k of
           None \<Rightarrow> 0 | Some x \<Rightarrow> (if status x = executed then 1 else 0))"
    proof (cases "k = oid")
      case True
      with none t show ?thesis by (simp add: tradesOf_def)
    next
      case False
      with cnt [of k] t show ?thesis by (simp add: tradesOf_def)
    qed
  qed
qed

lemma engine_inv_cancelled:
  assumes inv: "engine_inv s" and ord: "orders s oid = Some ord" and pend: "status ord = pending"
  shows "engine_inv (s\<lparr>orders := (orders s)(oid \<mapsto> ord\<lparr>status := cancelled\<rparr>)\<rparr>)"
proof -
  from inv have low: "\<And>k x. orders s k = Some x \<Longrightarrow> k < nextOrderId s"
    and cnt: "\<And>k. length (tradesOf s k) =
        (case orders s k of None \<Rightarrow> 0 | Some x \<Rightarrow> (if status x = executed then 1 else 0))"
    by (auto simp: engine_inv_def)
  from cnt [of oid] ord pend have none: "length (tradesOf s oid) = 0" by simp
  show ?thesis
    unfolding engine_inv_def
  proof (intro conjI allI impI)
    fix k x
    assume "orders (s\<lparr>orders := (orders s)(oid \<mapsto> ord\<lparr>status := cancelled\<rparr>)\<rparr>) k = Some x"
    then show "k < nextOrderId (s\<lparr>orders := (orders s)(oid \<mapsto> ord\<lparr>status := cancelled\<rparr>)\<rparr>)"
      using low [of k x] low [OF ord] by (cases "k = oid") simp_all
  next
    fix k
    show "length (tradesOf (s\<lparr>orders := (orders s)(oid \<mapsto> ord\<lparr>status := cancelled\<rparr>)\<rparr>) k) =
        (case orders (s\<lparr>orders := (orders s)(oid \<mapsto> ord\<lparr>status := cancelled\<rparr>)\<rparr>) k of
           None \<Rightarrow> 0 | Some x \<Rightarrow> (if status x = executed then 1 else 0))"
    proof (cases "k = oid")
      case True
      with none show ?thesis by (simp add: tradesOf_def)
    next
      case False
      with cnt [of k] show ?thesis by (simp add: tradesOf_def)
    qed
  qed
qed

lemma engine_inv_step: "engine_inv s \<Longrightarrow> engine_inv (step s opn)"
proof (cases opn)
  case (CreateUser uid nm em now)
  assume "engine_inv s"
  then show ?thesis
    unfolding CreateUser step.simps
    by (rule engine_inv_users [rotated 3]) (simp_all add: createUser_fields)
next
  case (UpdateUser uid nm em)
  assume "engine_inv s"
  then show ?thesis
    unfolding UpdateUser step.simps
    by (rule engine_inv_users [rotated 3]) (simp_all add: updateUser_fields)
next
  case (PlaceOrder uid sy sd qty price now)
  assume inv: "engine_inv s"
  from placeOrder_cases [of s uid sy sd qty price now] inv show ?thesis
    unfolding PlaceOrder step.simps
    by (auto simp: engine_inv_placed)
next
  case (ExecuteTrade oid price now)
  assume inv: "engine_inv s"
  from executeTrade_cases [of s oid price now] inv show ?thesis
    unfolding ExecuteTrade step.simps
    by (auto simp: engine_inv_executed)
next
  case (CancelOrder oid)
  assume inv: "engine_inv s"
  from cancelOrder_cases [of s oid] inv show ?thesis
    unfolding CancelOrder step.simps
    by (auto simp: engine_inv_cancelled)
qed

lemma reachable_inv: "reachable s \<Longrightarrow> engine_inv s"
  by (induction rule: reachable.induct) (simp_all add: engine_inv_new engine_inv_step)

lemma step_order:
  assumes inv: "engine_inv s" and ord: "orders s oid = Some ord"
  shows "orders (step s opn) oid = Some ord \<or>
         (status ord = pending \<and>
          (\<exists>ord'. orders (step s opn) oid = Some ord' \<and>
                  (status ord' = executed \<or> status ord' = cancelled)))"
proof (cases opn)
  case (CreateUser uid nm em now)
  with ord show ?thesis by (simp add: createUser_fields)
next
  case (UpdateUser uid nm em)
  with ord show ?thesis by (simp add: updateUser_fields)
next
  case (PlaceOrder uid sy sd qty price now)
  from engine_inv_fresh [OF inv] ord have "oid \<noteq> nextOrderId s" by auto
  with placeOrder_cases [of s uid sy sd qty price now] ord show ?thesis
    unfolding PlaceOrder step.simps by auto
next
  case (ExecuteTrade k price now)
  from executeTrade_cases [of s k price now] ord show ?thesis
    unfolding ExecuteTrade step.simps by (cases "k = oid") auto
next
  case (CancelOrder k)
  from cancelOrder_cases [of s k] ord show ?thesis
    unfolding CancelOrder step.simps by (cases "k = oid") auto
qed

lemma scenario_value:
  "scenario =
     \<lparr>users = [''u1'' \<mapsto> \<lparr>user_id = ''u1'', name = ''Jane Doe'', email = ''jane@x.com'', createdAt = 1\<rparr>],
      orders = [0 \<mapsto> \<lparr>order_id = 0, userId = ''u1'', symbol = ''GOLD'', side = buy,
                       quantity = 100, limitPrice = 3901 / 2, status = executed,
                       createdAt = 2, executedAt = Some 3\<rparr>],
      trades = [\<lparr>trade_id = 0, orderId = 0, executionPrice = 3901 / 2, quantity = 100,
                 executedAt = 3\<rparr>],
      ledger = \<lparr>portfolios = [''u1'' \<mapsto>
                  \<lparr>positions = [''GOLD'' \<mapsto> \<lparr>quantity = 100, averageCost = 3901 / 2\<rparr>],
                   cashBalance = - 195050, realizedPnL = 0\<rparr>],
                shortSelling = False\<rparr>,
      nextOrderId = 1, nextTradeId = 1\<rparr>"
  by (simp add: scenario_def newEngine_def newLedger_def createUser_def placeOrder_def
      executeTrade_def applyTrade_def getPortfolio_def positionOf_def emptyPortfolio_def Let_def)

text \<open>
  C5: order state machine. In every reachable state, every order has one of the three
  statuses; an executed order has exactly one trade and a pending or cancelled order has
  none; every trade belongs to an executed order; an operation either leaves an order as it
  is or takes it from pending to executed or to cancelled; an executed or cancelled order
  is never changed again.
\<close>

theorem order_state_machine:
  assumes reach: "reachable s" and ord: "orders s oid = Some ord"
  shows "status ord \<in> {pending, executed, cancelled} \<and>
    (status ord = executed \<longrightarrow> (\<exists>t. tradesOf s oid = [t])) \<and>
    (status ord \<noteq> executed \<longrightarrow> tradesOf s oid = []) \<and>
    (\<forall>t \<in> set (trades s). \<exists>x. orders s (orderId t) = Some x \<and> status x = executed) \<and>
    (orders (step s opn) oid = Some ord \<or>
       (status ord = pending \<and>
        (\<exists>ord'. orders (step s opn) oid = Some ord' \<and>
                (status ord' = executed \<or> status ord' = cancelled)))) \<and>
    (status ord \<noteq> pending \<longrightarrow> orders (step s opn) oid = Some ord)"
proof -
  have inv: "engine_inv s" by (rule reachable_inv [OF reach])
  then have cnt: "\<And>k. length (tradesOf s k) =
        (case orders s k of None \<Rightarrow> 0 | Some x \<Rightarrow> (if status x = executed then 1 else 0))"
    by (simp add: engine_inv_def)
  have all: "status ord \<in> {pending, executed, cancelled}"
    by (cases "status ord") simp_all
  have one: "status ord = executed \<longrightarrow> (\<exists>t. tradesOf s oid = [t])"
  proof
    assume "status ord = executed"
    with cnt [of oid] ord have "length (tradesOf s oid) = Suc 0" by simp
    then show "\<exists>t. tradesOf s oid = [t]" by (cases "tradesOf s oid") auto
  qed
  have none: "status ord \<noteq> executed \<longrightarrow> tradesOf s oid = []"
    using cnt [of oid] ord by (auto split: if_splits)
  have owner: "\<forall>t \<in> set (trades s). \<exists>x. orders s (orderId t) = Some x \<and> status x = executed"
  proof
    fix t
    assume "t \<in> set (trades s)"
    then have "t \<in> set (tradesOf s (orderId t))" by (simp add: tradesOf_def)
    then have "length (tradesOf s (orderId t)) \<noteq> 0" by auto
    with cnt [of "orderId t"] show "\<exists>x. orders s (orderId t) = Some x \<and> status x = executed"
      by (cases "orders s (orderId t)") (auto split: if_splits)
  qed
  have trans: "orders (step s opn) oid = Some ord \<or>
       (status ord = pending \<and>
        (\<exists>ord'. orders (step s opn) oid = Some ord' \<and>
                (status ord' = executed \<or> status ord' = cancelled)))"
    by (rule step_order [OF inv ord])
  then have terminal: "status ord \<noteq> pending \<longrightarrow> orders (step s opn) oid = Some ord"
    by blast
  from all one none owner trans terminal show ?thesis by blast
qed

text \<open>The theorem at the end-to-end scenario, followed by an attempt to cancel the executed
  order.\<close>

theorem order_state_machine_witness:
  "reachable scenario \<and>
   orders scenario 0 =
     Some \<lparr>order_id = 0, userId = ''u1'', symbol = ''GOLD'', side = buy,
           quantity = 100, limitPrice = 3901 / 2, status = executed,
           createdAt = 2, executedAt = Some 3\<rparr> \<and>
   (\<exists>t. tradesOf scenario 0 = [t]) \<and>
   orders (step scenario (CancelOrder 0)) 0 =
     Some \<lparr>order_id = 0, userId = ''u1'', symbol = ''GOLD'', side = buy,
           quantity = 100, limitPrice = 3901 / 2, status = executed,
           createdAt = 2, executedAt = Some 3\<rparr>"
proof -
  have reach: "reachable scenario"
    unfolding scenario_def by (intro reachable_step reachable_new)
  have ord: "orders scenario 0 =
     Some \<lparr>order_id = 0, userId = ''u1'', symbol = ''GOLD'', side = buy,
           quantity = 100, limitPrice = 3901 / 2, status = executed,
           createdAt = 2, executedAt = Some 3\<rparr>"
    by (simp add: scenario_value)
  from order_state_machine [OF reach ord, of "CancelOrder 0"] reach ord
  show ?thesis by simp
qed

end
